theory Spec2Isabelle
  imports Complex_Main "HOL-Library.Word"
begin

unbundle bit_operations_syntax

section \<open>Python values\<close>

text \<open>
  The script \<^verbatim>\<open>scripts/analyze_call_durations.py\<close> navigates JSON-shaped Python
  values: payloads come out of \<^verbatim>\<open>json.loads\<close> or arrive already decoded from the
  database client. A \<^verbatim>\<open>float\<close> is an IEEE binary64 value; a finite one is
  identified with the rational number it denotes (the two zeros compare equal in Python
  and are one value here). A \<^verbatim>\<open>dict\<close> is an association list in insertion order,
  read with \<open>map_of\<close>; its keys are strings, as for every JSON object.
\<close>

datatype pyfloat = Finite rat | PosInf | NegInf | NaN

datatype pyval =
    PNone
  | PBool bool
  | PInt int
  | PFloat pyfloat
  | PStr string
  | PList "pyval list"
  | PDict "(string \<times> pyval) list"

type_synonym pydict = "(string \<times> pyval) list"

type_synonym byte = "8 word"

text \<open>The exception classes that the functions below can meet. All of them derive
  from \<^verbatim>\<open>Exception\<close>.\<close>

datatype exn =
    AttributeError
  | TypeError
  | KeyError
  | IndexError
  | ValueError
  | OverflowError
  | BinasciiError
  | BadGzipFile
  | EOFError
  | ZlibError
  | UnicodeDecodeError
  | JSONDecodeError

text \<open>
  The library functions the script calls. \<open>decode_payload\<close> and the functions built on
  it take them as a parameter, so that a theorem about the script holds whatever the
  library does.
  \<^item> \<open>b64decode\<close>: \<^verbatim>\<open>base64.b64decode\<close> on a \<^verbatim>\<open>str\<close>;
  \<^item> \<open>gzip_decompress\<close>: \<^verbatim>\<open>gzip.decompress\<close>;
  \<^item> \<open>utf8_decode\<close>: \<^verbatim>\<open>bytes.decode('utf-8')\<close>;
  \<^item> \<open>json_loads\<close>: \<^verbatim>\<open>json.loads\<close> on a \<^verbatim>\<open>str\<close>;
  \<^item> \<open>float_of_str\<close>: \<^verbatim>\<open>float\<close> on a \<^verbatim>\<open>str\<close>, \<open>None\<close> where it raises
    \<^verbatim>\<open>ValueError\<close>;
  \<^item> \<open>str_of\<close>: \<^verbatim>\<open>format(v, '')\<close> for a value that is not a \<^verbatim>\<open>str\<close>.
\<close>

record pylib =
  b64decode :: "string \<Rightarrow> exn + byte list"
  gzip_decompress :: "byte list \<Rightarrow> exn + byte list"
  utf8_decode :: "byte list \<Rightarrow> exn + string"
  json_loads :: "string \<Rightarrow> exn + pyval"
  float_of_str :: "string \<Rightarrow> pyfloat option"
  str_of :: "pyval \<Rightarrow> string"

subsection \<open>Floating point\<close>

fun bit_length :: "nat \<Rightarrow> nat" where
  "bit_length n = (if n = 0 then 0 else Suc (bit_length (n div 2)))"

declare bit_length.simps [simp del]

definition pow2 :: "int \<Rightarrow> rat" where
  "pow2 p = (if 0 \<le> p then 2 ^ nat p else 1 / 2 ^ nat (- p))"

definition ilog2 :: "rat \<Rightarrow> int" where
  \<comment> \<open>\<open>\<lfloor>log\<^sub>2 a\<rfloor>\<close> for \<open>a > 0\<close>\<close>
  "ilog2 a =
     (let (n, d) = quotient_of a;
          k = int (bit_length (nat n)) - int (bit_length (nat d))
      in if pow2 k \<le> a then k else k - 1)"

definition round_half_even :: "rat \<Rightarrow> int" where
  "round_half_even q =
     (let f = \<lfloor>q\<rfloor>; d = q - of_int f
      in if d < 1 / 2 then f
         else if 1 / 2 < d then f + 1
         else if even f then f else f + 1)"

definition round_double :: "rat \<Rightarrow> pyfloat" where
  \<comment> \<open>round to nearest binary64, ties to even; 53 bits of precision, least exponent
      \<open>-1022\<close> (gradual underflow), overflow to infinity\<close>
  "round_double q =
     (if q = 0 then Finite 0
      else let a = \<bar>q\<bar>;
               p = max (ilog2 a) (- 1022) - 52;
               r = of_int (round_half_even (a / pow2 p)) * pow2 p
           in if 2 ^ 1024 \<le> r then (if 0 < q then PosInf else NegInf)
              else Finite (sgn q * r))"

definition float_of_int :: "int \<Rightarrow> exn + pyfloat" where
  \<comment> \<open>\<^verbatim>\<open>float(n)\<close> for an \<^verbatim>\<open>int\<close>: correctly rounded, and \<^verbatim>\<open>OverflowError\<close>
      where the rounded value is not finite\<close>
  "float_of_int n =
     (case round_double (of_int n) of
        Finite r \<Rightarrow> Inr (Finite r)
      | _ \<Rightarrow> Inl OverflowError)"

fun float_neg :: "pyfloat \<Rightarrow> pyfloat" where
  "float_neg (Finite q) = Finite (- q)"
| "float_neg PosInf = NegInf"
| "float_neg NegInf = PosInf"
| "float_neg NaN = NaN"

fun float_sub :: "pyfloat \<Rightarrow> pyfloat \<Rightarrow> pyfloat" where
  "float_sub (Finite a) (Finite b) = round_double (a - b)"
| "float_sub NaN _ = NaN"
| "float_sub _ NaN = NaN"
| "float_sub PosInf PosInf = NaN"
| "float_sub NegInf NegInf = NaN"
| "float_sub PosInf _ = PosInf"
| "float_sub NegInf _ = NegInf"
| "float_sub (Finite a) b = float_neg b"

subsection \<open>Built-in operations\<close>

fun truthy :: "pyval \<Rightarrow> bool" where
  "truthy PNone = False"
| "truthy (PBool b) = b"
| "truthy (PInt n) = (n \<noteq> 0)"
| "truthy (PFloat f) = (f \<noteq> Finite 0)"
| "truthy (PStr s) = (s \<noteq> [])"
| "truthy (PList xs) = (xs \<noteq> [])"
| "truthy (PDict d) = (d \<noteq> [])"

definition dict_get :: "pydict \<Rightarrow> string \<Rightarrow> pyval \<Rightarrow> pyval" where
  \<comment> \<open>\<^verbatim>\<open>d.get(k, default)\<close> on a \<^verbatim>\<open>dict\<close>\<close>
  "dict_get d k dflt = (case map_of d k of None \<Rightarrow> dflt | Some v \<Rightarrow> v)"

fun py_get :: "pyval \<Rightarrow> string \<Rightarrow> pyval \<Rightarrow> exn + pyval" where
  \<comment> \<open>\<^verbatim>\<open>v.get(k, default)\<close>: only a \<^verbatim>\<open>dict\<close> has the method\<close>
  "py_get (PDict d) k dflt = Inr (dict_get d k dflt)"
| "py_get _ k dflt = Inl AttributeError"

fun py_len :: "pyval \<Rightarrow> exn + nat" where
  "py_len (PStr s) = Inr (length s)"
| "py_len (PList xs) = Inr (length xs)"
| "py_len (PDict d) = Inr (length d)"
| "py_len _ = Inl TypeError"

fun py_last :: "pyval \<Rightarrow> exn + pyval" where
  \<comment> \<open>\<^verbatim>\<open>v[-1]\<close>; a \<^verbatim>\<open>dict\<close> with string keys has no key \<^verbatim>\<open>-1\<close>\<close>
  "py_last (PList xs) = (if xs = [] then Inl IndexError else Inr (last xs))"
| "py_last (PStr s) = (if s = [] then Inl IndexError else Inr (PStr [last s]))"
| "py_last (PDict d) = Inl KeyError"
| "py_last _ = Inl TypeError"

fun py_float :: "pylib \<Rightarrow> pyval \<Rightarrow> exn + pyfloat" where
  \<comment> \<open>the built-in \<^verbatim>\<open>float(v)\<close>\<close>
  "py_float lib (PFloat f) = Inr f"
| "py_float lib (PInt n) = float_of_int n"
| "py_float lib (PBool b) = Inr (Finite (if b then 1 else 0))"
| "py_float lib (PStr s) =
     (case float_of_str lib s of None \<Rightarrow> Inl ValueError | Some f \<Rightarrow> Inr f)"
| "py_float lib _ = Inl TypeError"

fun py_format :: "pylib \<Rightarrow> pyval \<Rightarrow> string" where
  \<comment> \<open>what an f-string field \<^verbatim>\<open>{v}\<close> inserts\<close>
  "py_format lib (PStr s) = s"
| "py_format lib v = str_of lib v"

fun num_of :: "pyval \<Rightarrow> pyfloat option" where
  "num_of (PBool b) = Some (Finite (if b then 1 else 0))"
| "num_of (PInt n) = Some (Finite (of_int n))"
| "num_of (PFloat f) = Some f"
| "num_of _ = None"

fun py_eq :: "pyval \<Rightarrow> pyval \<Rightarrow> bool" where
  \<comment> \<open>\<^verbatim>\<open>a == b\<close> on hashable values: numbers compare by exact value across
      \<^verbatim>\<open>bool\<close>, \<^verbatim>\<open>int\<close> and \<^verbatim>\<open>float\<close>, and a NaN equals nothing\<close>
  "py_eq PNone PNone = True"
| "py_eq (PStr s) (PStr t) = (s = t)"
| "py_eq a b =
     (case (num_of a, num_of b) of
        (Some x, Some y) \<Rightarrow> x = y \<and> x \<noteq> NaN
      | _ \<Rightarrow> False)"

fun hashable :: "pyval \<Rightarrow> bool" where
  "hashable (PList xs) = False"
| "hashable (PDict d) = False"
| "hashable _ = True"

definition set_contains :: "pyval list \<Rightarrow> pyval \<Rightarrow> exn + bool" where
  \<comment> \<open>\<^verbatim>\<open>v in s\<close> for a \<^verbatim>\<open>set\<close> \<open>s\<close>, kept as the list of its elements\<close>
  "set_contains s v =
     (if hashable v then Inr (list_ex (py_eq v) s) else Inl TypeError)"

definition subscript :: "pydict \<Rightarrow> string \<Rightarrow> exn + pyval" where
  \<comment> \<open>\<^verbatim>\<open>d[k]\<close> on a \<^verbatim>\<open>dict\<close>\<close>
  "subscript d k = (case map_of d k of None \<Rightarrow> Inl KeyError | Some v \<Rightarrow> Inr v)"

section \<open>The script\<close>

definition DASHBOARD_BASE_URL :: string where
  "DASHBOARD_BASE_URL = ''https://hellocounsel-dashboard.vercel.app/calls''"

definition DASHBOARD_PARAMS :: string where
  "DASHBOARD_PARAMS =
     ''f=0&e=production&s=N4IgJgtiBcIJ4FMDOAXBAnMBDOIA0ISYMIATAAykBsAtOQIw2kAs%2BICxsF1djAzPRABfIA''"

subsection \<open>\<^verbatim>\<open>decode_payload\<close>\<close>

definition gzip_strategy :: "pylib \<Rightarrow> string \<Rightarrow> exn + pyval" where
  \<comment> \<open>the body of the outer \<^verbatim>\<open>try\<close>\<close>
  "gzip_strategy lib payload =
     (case b64decode lib payload of
        Inl e \<Rightarrow> Inl e
      | Inr decoded_bytes \<Rightarrow>
          (case gzip_decompress lib decoded_bytes of
             Inl e \<Rightarrow> Inl e
           | Inr decompressed \<Rightarrow>
               (case utf8_decode lib decompressed of
                  Inl e \<Rightarrow> Inl e
                | Inr text \<Rightarrow> json_loads lib text)))"

fun decode_payload :: "pylib \<Rightarrow> pyval \<Rightarrow> exn + pyval" where
  "decode_payload lib (PDict d) = Inr (PDict d)"
| "decode_payload lib (PStr payload) =
     (case gzip_strategy lib payload of
        Inr v \<Rightarrow> Inr v
      | Inl _ \<Rightarrow>
          (case json_loads lib payload of
             Inr v \<Rightarrow> Inr v
           | Inl _ \<Rightarrow> Inr (PDict [])))"
| "decode_payload lib _ = Inr (PDict [])"

subsection \<open>\<^verbatim>\<open>extract_call_data\<close>\<close>

definition last_message_timestamp :: "pyval \<Rightarrow> exn + pyval" where
  \<comment> \<open>lines 98 to 101: \<^verbatim>\<open>messages and len(messages) > 0\<close> evaluates \<^verbatim>\<open>len\<close> only
      for a truthy \<^verbatim>\<open>messages\<close>\<close>
  "last_message_timestamp messages =
     (if \<not> truthy messages then Inr PNone
      else case py_len messages of
        Inl e \<Rightarrow> Inl e
      | Inr n \<Rightarrow>
          if 0 < n then
            (case py_last messages of
               Inl e \<Rightarrow> Inl e
             | Inr last_message \<Rightarrow> py_get last_message ''secondsFromStart'' PNone)
          else Inr PNone)"

definition compute_difference :: "pylib \<Rightarrow> pyval \<Rightarrow> pyval \<Rightarrow> exn + pyval" where
  \<comment> \<open>lines 109 to 114: the handler catches \<^verbatim>\<open>ValueError\<close> and \<^verbatim>\<open>TypeError\<close> only\<close>
  "compute_difference lib duration_seconds last_ts =
     (if duration_seconds \<noteq> PNone \<and> last_ts \<noteq> PNone then
        (case py_float lib duration_seconds of
           Inl e \<Rightarrow> if e = ValueError \<or> e = TypeError then Inr PNone else Inl e
         | Inr a \<Rightarrow>
             (case py_float lib last_ts of
                Inl e \<Rightarrow> if e = ValueError \<or> e = TypeError then Inr PNone else Inl e
              | Inr b \<Rightarrow> Inr (PFloat (float_sub a b))))
      else Inr PNone)"

definition extract_call_data :: "pylib \<Rightarrow> pyval \<Rightarrow> exn + pydict option" where
  "extract_call_data lib payload =
     (case py_get payload ''message'' (PDict []) of
        Inl e \<Rightarrow> Inl e
      | Inr message \<Rightarrow>
     (case py_get message ''call'' (PDict []) of
        Inl e \<Rightarrow> Inl e
      | Inr call \<Rightarrow>
     (case py_get call ''id'' PNone of
        Inl e \<Rightarrow> Inl e
      | Inr call_id \<Rightarrow>
     if \<not> truthy call_id then Inr None
     else
     (case py_get message ''durationSeconds'' PNone of
        Inl e \<Rightarrow> Inl e
      | Inr duration_seconds \<Rightarrow>
     (case py_get message ''artifact'' (PDict []) of
        Inl e \<Rightarrow> Inl e
      | Inr artifact \<Rightarrow>
     (case py_get artifact ''messages'' (PList []) of
        Inl e \<Rightarrow> Inl e
      | Inr messages \<Rightarrow>
     (case last_message_timestamp messages of
        Inl e \<Rightarrow> Inl e
      | Inr last_ts \<Rightarrow>
     (case py_get message ''startedAt'' PNone of
        Inl e \<Rightarrow> Inl e
      | Inr started_at \<Rightarrow>
     (case py_get message ''endedAt'' PNone of
        Inl e \<Rightarrow> Inl e
      | Inr ended_at \<Rightarrow>
     (case py_get message ''endedReason'' PNone of
        Inl e \<Rightarrow> Inl e
      | Inr ended_reason \<Rightarrow>
     (case compute_difference lib duration_seconds last_ts of
        Inl e \<Rightarrow> Inl e
      | Inr difference \<Rightarrow>
          Inr (Some
            [(''callID'', call_id),
             (''dashboardURL'',
                PStr (DASHBOARD_BASE_URL @ ''?'' @ DASHBOARD_PARAMS @ ''&c=''
                      @ py_format lib call_id)),
             (''vapiCallDuration'', duration_seconds),
             (''lastMessageTimeStamp'', last_ts),
             (''difference'', difference),
             (''startedAt'', started_at),
             (''endedAt'', ended_at),
             (''endedReason'', ended_reason)]))))))))))))"

subsection \<open>\<^verbatim>\<open>process_webhooks\<close>\<close>

text \<open>The loop of lines 180 to 189, with the two accumulators \<^verbatim>\<open>results\<close> and
  \<^verbatim>\<open>seen_call_ids\<close> passed along; the progress messages are left out. An exception
  ends the loop and the function.\<close>

fun process_loop ::
  "pylib \<Rightarrow> pydict list \<Rightarrow> pydict list \<Rightarrow> pyval list \<Rightarrow> exn + pydict list" where
  "process_loop lib [] results seen_call_ids = Inr results"
| "process_loop lib (webhook # webhooks) results seen_call_ids =
     (case decode_payload lib (dict_get webhook ''payload'' (PDict [])) of
        Inl e \<Rightarrow> Inl e
      | Inr payload \<Rightarrow>
     (case extract_call_data lib payload of
        Inl e \<Rightarrow> Inl e
      | Inr None \<Rightarrow> process_loop lib webhooks results seen_call_ids
      | Inr (Some call_data) \<Rightarrow>
          if call_data = [] then process_loop lib webhooks results seen_call_ids
          else
          (case subscript call_data ''callID'' of
             Inl e \<Rightarrow> Inl e
           | Inr cid \<Rightarrow>
          (case set_contains seen_call_ids cid of
             Inl e \<Rightarrow> Inl e
           | Inr True \<Rightarrow> process_loop lib webhooks results seen_call_ids
           | Inr False \<Rightarrow>
               process_loop lib webhooks (results @ [call_data])
                 (cid # seen_call_ids)))))"

definition process_webhooks :: "pylib \<Rightarrow> pydict list \<Rightarrow> exn + pydict list" where
  "process_webhooks lib webhooks = process_loop lib webhooks [] []"

section \<open>Properties of \<^verbatim>\<open>decode_payload\<close>\<close>

text \<open>
  Claim C7. A payload that is already a structured mapping is returned unchanged by
  \<open>decode_payload\<close>, whatever the mapping holds and whatever the library does.
\<close>

theorem decode_payload_identity_on_dict:
  "decode_payload lib (PDict d) = Inr (PDict d)"
  by simp

end
